theory Spec2Isabelle
  imports Main
begin

section \<open>The element tree handed over by the XML library\<close>

text \<open>
  \<^verbatim>\<open>convert.py\<close> works on the tree that \<^verbatim>\<open>etree.parse\<close> returns. An element carries
  its namespace URI and local name (lxml's tag \<^verbatim>\<open>{uri}local\<close>), its attributes (keys in the
  same notation), the text before its first child (\<^verbatim>\<open>.text\<close>, \<^verbatim>\<open>None\<close> when absent), its
  children and the text that follows its end tag (\<^verbatim>\<open>.tail\<close>). The tree holds element nodes
  only: a comment or a processing instruction among the children of the body, of a \<^verbatim>\<open>div\<close>
  or of a paragraph, on which \<^verbatim>\<open>etree.QName\<close> raises ValueError, is not an input of
  the model. A Python \<^verbatim>\<open>str\<close> is a \<^typ>\<open>string\<close>, one \<^typ>\<open>char\<close> per code point below 256.
\<close>

datatype elem =
  Elem (ns: string) (localname: string) (attrib: "(string \<times> string) list")
       (etext: "string option") (children: "elem list") (tail: "string option")

datatype py_exn = OSError | XMLSyntaxError | TypeError | KeyError string

definition TEI :: string where
  "TEI = ''http://www.tei-c.org/ns/1.0''"

definition XML_ID :: string where
  "XML_ID = ''{http://www.w3.org/XML/1998/namespace}id''"

definition tei :: "string \<Rightarrow> elem \<Rightarrow> bool" where
  \<comment> \<open>the name test \<^verbatim>\<open>tei:name\<close> under \<^verbatim>\<open>ns = {"tei": "http://www.tei-c.org/ns/1.0"}\<close>\<close>
  "tei name e = (ns e = TEI \<and> localname e = name)"

definition get :: "elem \<Rightarrow> string \<Rightarrow> string option" where
  \<comment> \<open>\<^verbatim>\<open>elem.get(key)\<close>\<close>
  "get e key = map_of (attrib e) key"

definition get_default :: "elem \<Rightarrow> string \<Rightarrow> string \<Rightarrow> string" where
  \<comment> \<open>\<^verbatim>\<open>elem.get(key, default)\<close>\<close>
  "get_default e key dflt = (case map_of (attrib e) key of None \<Rightarrow> dflt | Some v \<Rightarrow> v)"

subsection \<open>Document order, XPath and ElementPath\<close>

text \<open>
  \<open>doc_order anc e\<close> lists \<open>e\<close> and its descendants in document order, each with its
  chain of ancestors, nearest first.
\<close>

fun doc_order :: "elem list \<Rightarrow> elem \<Rightarrow> (elem list \<times> elem) list"
  and doc_order_list :: "elem list \<Rightarrow> elem list \<Rightarrow> (elem list \<times> elem) list" where
  "doc_order anc (Elem n l a t cs tt) =
     (anc, Elem n l a t cs tt) # doc_order_list (Elem n l a t cs tt # anc) cs"
| "doc_order_list anc [] = []"
| "doc_order_list anc (c # cs) = doc_order anc c @ doc_order_list anc cs"

fun under :: "(elem \<Rightarrow> bool) list \<Rightarrow> elem list \<Rightarrow> bool" where
  \<comment> \<open>the ancestor chain holds elements matching the tests, outwards in this order\<close>
  "under [] anc = True"
| "under (p # ps) [] = False"
| "under (p # ps) (a # anc) = ((p a \<and> under ps anc) \<or> under (p # ps) anc)"

definition xpath_child :: "(elem \<Rightarrow> bool) \<Rightarrow> (elem \<Rightarrow> bool) \<Rightarrow> elem \<Rightarrow> elem list" where
  \<comment> \<open>\<^verbatim>\<open>tree.xpath("//A/B")\<close>: the elements B whose parent is an A, in document order\<close>
  "xpath_child A B root =
     map snd (filter (\<lambda>(anc, e). B e \<and> (case anc of [] \<Rightarrow> False | p # _ \<Rightarrow> A p))
                     (doc_order [] root))"

definition xpath_desc :: "(elem \<Rightarrow> bool) list \<Rightarrow> (elem \<Rightarrow> bool) \<Rightarrow> elem \<Rightarrow> elem list" where
  \<comment> \<open>\<^verbatim>\<open>tree.xpath("//A2//A1//B")\<close> with the tests on the ancestors listed innermost first\<close>
  "xpath_desc As B root =
     map snd (filter (\<lambda>(anc, e). B e \<and> under As anc) (doc_order [] root))"

definition find_child :: "(elem \<Rightarrow> bool) \<Rightarrow> elem \<Rightarrow> elem option" where
  \<comment> \<open>\<^verbatim>\<open>elem.find('tei:name', namespaces=ns)\<close>: the first matching child, or \<^verbatim>\<open>None\<close>\<close>
  "find_child P e = List.find P (children e)"

definition findall_child :: "(elem \<Rightarrow> bool) \<Rightarrow> elem \<Rightarrow> elem list" where
  \<comment> \<open>\<^verbatim>\<open>elem.findall('tei:name', namespaces=ns)\<close>\<close>
  "findall_child P e = filter P (children e)"

definition findall_desc :: "(elem \<Rightarrow> bool) \<Rightarrow> elem \<Rightarrow> elem list" where
  \<comment> \<open>\<^verbatim>\<open>elem.findall('.//tei:name', namespaces=ns)\<close>: matching descendants, document order\<close>
  "findall_desc P e = filter P (map snd (doc_order_list [e] (children e)))"

fun itertext :: "elem \<Rightarrow> string list"
  and itertext_children :: "elem list \<Rightarrow> string list" where
  "itertext (Elem n l a t cs tt) =
     (case t of None \<Rightarrow> [] | Some s \<Rightarrow> [s]) @ itertext_children cs"
| "itertext_children [] = []"
| "itertext_children (c # cs) =
     itertext c @ (case tail c of None \<Rightarrow> [] | Some s \<Rightarrow> [s]) @ itertext_children cs"

subsection \<open>Python string operations\<close>

definition isspace :: "char \<Rightarrow> bool" where
  "isspace c = (of_char c \<in> {9, 10, 11, 12, 13, 28, 29, 30, 31, 32, 133, 160 :: nat})"

definition strip :: "string \<Rightarrow> string" where
  "strip s = rev (dropWhile isspace (rev (dropWhile isspace s)))"

definition lstrip :: "char \<Rightarrow> string \<Rightarrow> string" where
  \<comment> \<open>\<^verbatim>\<open>s.lstrip(c)\<close> for a one-character argument\<close>
  "lstrip c s = dropWhile (\<lambda>x. x = c) s"

fun join :: "string \<Rightarrow> string list \<Rightarrow> string" where
  "join sep [] = []"
| "join sep [x] = x"
| "join sep (x # y # ys) = x @ sep @ join sep (y # ys)"

fun all_str :: "string option list \<Rightarrow> string list option" where
  "all_str [] = Some []"
| "all_str (None # xs) = None"
| "all_str (Some s # xs) = (case all_str xs of None \<Rightarrow> None | Some ss \<Rightarrow> Some (s # ss))"

definition join_opt :: "string \<Rightarrow> string option list \<Rightarrow> py_exn + string" where
  \<comment> \<open>\<^verbatim>\<open>sep.join(parts)\<close> on a list that may hold \<^verbatim>\<open>None\<close>: a \<^verbatim>\<open>None\<close> item raises TypeError\<close>
  "join_opt sep parts = (case all_str parts of None \<Rightarrow> Inl TypeError | Some ss \<Rightarrow> Inr (join sep ss))"

definition digit_char :: "nat \<Rightarrow> char" where
  "digit_char d = char_of (48 + d)"

function str_nat :: "nat \<Rightarrow> string" where
  \<comment> \<open>\<^verbatim>\<open>str(n)\<close> for a non-negative \<^verbatim>\<open>int\<close>\<close>
  "str_nat n = (if n < 10 then [digit_char n] else str_nat (n div 10) @ [digit_char (n mod 10)])"
  by pat_completeness auto
termination
  by (relation "measure id") auto

section \<open>The document model\<close>

datatype span = Text_span string | Ref_span string string

datatype block =
  Heading string
  | Paragraph "span list"
  | Table "string list list option"

type_synonym reference = "(string \<times> string) list"

record document_model =
  title :: "string option"
  authors :: "string list"
  abstract :: string
  body_elements :: "block list"
  references :: "reference list"

section \<open>The markup parser\<close>

definition append_text :: "string option \<Rightarrow> span list \<Rightarrow> span list" where
  \<comment> \<open>\<^verbatim>\<open>if s: content.append({'type': 'text', 'text': s})\<close>\<close>
  "append_text s content =
     (case s of None \<Rightarrow> content
      | Some x \<Rightarrow> if x = [] then content else content @ [Text_span x])"

fun recurse :: "elem \<Rightarrow> span list \<Rightarrow> span list"
  and recurse_children :: "elem list \<Rightarrow> span list \<Rightarrow> span list" where
  "recurse (Elem n l a t cs tt) content = recurse_children cs (append_text t content)"
| "recurse_children [] content = content"
| "recurse_children (child # cs) content =
     (if localname child = ''ref'' \<and> get child ''type'' = Some ''bibr'' then
        let ref_text = concat (itertext child);
            target = lstrip CHR ''#'' (get_default child ''target'' [])
        in recurse_children cs (append_text (tail child) (content @ [Ref_span ref_text target]))
      else recurse_children cs (append_text (tail child) (recurse child content)))"

definition get_paragraph_content :: "elem \<Rightarrow> span list" where
  "get_paragraph_content paragraph_elem = recurse paragraph_elem []"

definition parse_table :: "elem \<Rightarrow> string list list option" where
  "parse_table figure_elem =
     (case find_child (tei ''table'') figure_elem of
        None \<Rightarrow> None
      | Some table_elem \<Rightarrow>
          Some (map (\<lambda>row. map (\<lambda>cell. strip (concat (itertext cell)))
                               (findall_child (tei ''cell'') row))
                    (findall_desc (tei ''row'') table_elem)))"

text \<open>
  The closure \<^verbatim>\<open>process_body_elements\<close> appends to the list \<^verbatim>\<open>body_elements\<close> of the
  enclosing function; the list is passed in and returned.
\<close>

fun process_body_elements :: "elem \<Rightarrow> block list \<Rightarrow> block list"
  and process_body_loop :: "elem list \<Rightarrow> block list \<Rightarrow> block list" where
  "process_body_elements (Elem n l a t cs tt) body_elems = process_body_loop cs body_elems"
| "process_body_loop [] body_elems = body_elems"
| "process_body_loop (elem # rest) body_elems =
     (if localname elem = ''head'' then
        process_body_loop rest (body_elems @ [Heading (strip (concat (itertext elem)))])
      else if localname elem = ''p'' then
        process_body_loop rest (body_elems @ [Paragraph (get_paragraph_content elem)])
      else if localname elem = ''div'' then
        process_body_loop rest (process_body_elements elem body_elems)
      else if localname elem = ''figure'' \<and> get elem ''type'' = Some ''table'' then
        process_body_loop rest (body_elems @ [Table (parse_table elem)])
      else process_body_loop rest body_elems)"

definition name_parts :: "elem \<Rightarrow> string option list" where
  \<comment> \<open>the list \<^verbatim>\<open>name_parts\<close> built for one author; \<^verbatim>\<open>.text\<close> may be \<^verbatim>\<open>None\<close>\<close>
  "name_parts author =
     (case find_child (tei ''persName'') author of
        None \<Rightarrow> []
      | Some persName \<Rightarrow>
          (case find_child (tei ''forename'') persName of
             None \<Rightarrow> [] | Some forename \<Rightarrow> [etext forename]) @
          (case find_child (tei ''surname'') persName of
             None \<Rightarrow> [] | Some surname \<Rightarrow> [etext surname]))"

fun authors_loop :: "elem list \<Rightarrow> string list \<Rightarrow> py_exn + string list" where
  "authors_loop [] authors_acc = Inr authors_acc"
| "authors_loop (author # rest) authors_acc =
     (case join_opt '' '' (name_parts author) of
        Inl e \<Rightarrow> Inl e
      | Inr full_name \<Rightarrow>
          authors_loop rest
            (if full_name \<noteq> [] then authors_acc @ [full_name] else authors_acc))"

fun references_loop :: "elem list \<Rightarrow> reference list \<Rightarrow> reference list" where
  "references_loop [] refs = refs"
| "references_loop (ref # rest) refs =
     references_loop rest
       (refs @ [[(''id'', get_default ref XML_ID (''ref_'' @ str_nat (length refs + 1))),
                 (''text'', strip (join '' '' (itertext ref)))]])"

abbreviation title_xpath :: "elem \<Rightarrow> elem list" where
  \<comment> \<open>\<^verbatim>\<open>//tei:titleStmt/tei:title[@type='main']\<close>\<close>
  "title_xpath tree \<equiv>
     xpath_child (tei ''titleStmt'') (\<lambda>e. tei ''title'' e \<and> get e ''type'' = Some ''main'') tree"

abbreviation author_xpath :: "elem \<Rightarrow> elem list" where
  \<comment> \<open>\<^verbatim>\<open>//tei:sourceDesc//tei:author\<close>\<close>
  "author_xpath tree \<equiv> xpath_desc [tei ''sourceDesc''] (tei ''author'') tree"

abbreviation abstract_xpath :: "elem \<Rightarrow> elem list" where
  \<comment> \<open>\<^verbatim>\<open>//tei:profileDesc/tei:abstract\<close>\<close>
  "abstract_xpath tree \<equiv> xpath_child (tei ''profileDesc'') (tei ''abstract'') tree"

abbreviation body_xpath :: "elem \<Rightarrow> elem list" where
  \<comment> \<open>\<^verbatim>\<open>//tei:text/tei:body\<close>\<close>
  "body_xpath tree \<equiv> xpath_child (tei ''text'') (tei ''body'') tree"

abbreviation bibliography_xpath :: "elem \<Rightarrow> elem list" where
  \<comment> \<open>\<^verbatim>\<open>//tei:back//tei:listBibl//tei:biblStruct\<close>\<close>
  "bibliography_xpath tree \<equiv>
     xpath_desc [tei ''listBibl'', tei ''back''] (tei ''biblStruct'') tree"

text \<open>
  The argument of \<open>parse_tei\<close> is what \<^verbatim>\<open>etree.parse(tei_file)\<close> does on the file: it
  raises, or it returns the tree (given by its root element). \<open>parse_tei_try\<close> is the body
  of the \<^verbatim>\<open>try\<close> statement, \<open>parse_tei\<close> adds the handler \<^verbatim>\<open>except Exception\<close>, which logs
  and returns \<^verbatim>\<open>None\<close>.
\<close>

definition parse_tei_try :: "py_exn + elem \<Rightarrow> py_exn + document_model" where
  "parse_tei_try tei_file =
     (case tei_file of
        Inl e \<Rightarrow> Inl e
      | Inr tree \<Rightarrow>
          let title_elems = title_xpath tree;
              title_text = (case title_elems of [] \<Rightarrow> Some ''N/A'' | t # _ \<Rightarrow> etext t)
          in case authors_loop (author_xpath tree) [] of
               Inl e \<Rightarrow> Inl e
             | Inr authors_list \<Rightarrow>
                 let abstract_elem = abstract_xpath tree;
                     abstract_text = (case abstract_elem of
                                        [] \<Rightarrow> []
                                      | a # _ \<Rightarrow> strip (concat (itertext a)));
                     body = body_xpath tree;
                     body_elems = (case body of
                                     [] \<Rightarrow> []
                                   | b # _ \<Rightarrow> process_body_elements b []);
                     bibliography = bibliography_xpath tree;
                     refs = references_loop bibliography []
                 in Inr \<lparr> title = title_text,
                          authors = authors_list,
                          abstract = abstract_text,
                          body_elements = body_elems,
                          references = refs \<rparr>)"

definition parse_tei :: "py_exn + elem \<Rightarrow> document_model option" where
  "parse_tei tei_file =
     (case parse_tei_try tei_file of Inl e \<Rightarrow> None | Inr parsed \<Rightarrow> Some parsed)"

section \<open>The document renderer\<close>

text \<open>
  The output document is what \<^verbatim>\<open>create_odt\<close> has assembled when it calls \<^verbatim>\<open>doc.save\<close>:
  the styles added to \<^verbatim>\<open>doc.styles\<close> and the elements added to \<^verbatim>\<open>doc.text\<close>, in order.
  A paragraph \<^verbatim>\<open>P(stylename=s, text=t)\<close> is its style name and its content. The console
  log is not part of the state. Outside the references loop no statement of the model
  raises, so \<open>create_odt\<close> returns the document it hands to \<^verbatim>\<open>doc.save\<close>.
\<close>

datatype inline =
  Text_node string
  | A string string  \<comment> \<open>\<^verbatim>\<open>A(href=..., text=...)\<close>\<close>
  | BookmarkStart string
  | BookmarkEnd string

datatype par = P "string option" "inline list"

datatype odt_elem = Par par | Odt_table "par list list"

record odt_style =
  style_name :: string
  family :: string
  text_properties :: "(string \<times> string) list"

record odt_document =
  doc_styles :: "odt_style list"
  doc_text :: "odt_elem list"

definition addText :: "string \<Rightarrow> inline list \<Rightarrow> inline list" where
  \<comment> \<open>\<^verbatim>\<open>element.addText(text)\<close>: the empty string adds no text node\<close>
  "addText t content = (if t = [] then content else content @ [Text_node t])"

definition P_text :: "string option \<Rightarrow> string option \<Rightarrow> par" where
  \<comment> \<open>\<^verbatim>\<open>P(stylename=s, text=t)\<close>: a text other than \<^verbatim>\<open>None\<close> is added with \<^verbatim>\<open>addText\<close>\<close>
  "P_text s t = P s (case t of None \<Rightarrow> [] | Some x \<Rightarrow> addText x [])"

definition blank :: odt_elem where
  \<comment> \<open>\<^verbatim>\<open>P(text="")\<close>\<close>
  "blank = Par (P_text None (Some []))"

definition five_styles :: "odt_style list" where
  "five_styles =
     [\<lparr> style_name = ''Title'', family = ''paragraph'', text_properties =
          [(''fontsize'', ''24pt''), (''fontweight'', ''bold''), (''fontfamily'', ''Arial'')] \<rparr>,
      \<lparr> style_name = ''AuthorStyle'', family = ''paragraph'', text_properties =
          [(''fontsize'', ''12pt''), (''fontweight'', ''bold''), (''fontfamily'', ''Arial'')] \<rparr>,
      \<lparr> style_name = ''AbstractStyle'', family = ''paragraph'', text_properties =
          [(''fontsize'', ''12pt''), (''fontstyle'', ''italic''), (''fontfamily'', ''Arial'')] \<rparr>,
      \<lparr> style_name = ''Heading'', family = ''paragraph'', text_properties =
          [(''fontsize'', ''18pt''), (''fontweight'', ''bold''), (''fontfamily'', ''Arial'')] \<rparr>,
      \<lparr> style_name = ''BodyText'', family = ''paragraph'', text_properties =
          [(''fontsize'', ''12pt''), (''fontfamily'', ''Arial'')] \<rparr>]"

fun add_content :: "span list \<Rightarrow> inline list \<Rightarrow> inline list" where
  \<comment> \<open>\<^verbatim>\<open>for content_piece in element['content']\<close>\<close>
  "add_content [] paragraph = paragraph"
| "add_content (Text_span t # rest) paragraph = add_content rest (addText t paragraph)"
| "add_content (Ref_span ref_text target # rest) paragraph =
     add_content rest (paragraph @ [A (''#'' @ target) ref_text])"

fun add_body :: "block list \<Rightarrow> odt_elem list \<Rightarrow> odt_elem list" where
  \<comment> \<open>\<^verbatim>\<open>for element in parsed_data['body_elements']\<close>\<close>
  "add_body [] doc = doc"
| "add_body (Heading heading_text # rest) doc =
     add_body rest (doc @ [Par (P_text (Some ''Heading'') (Some heading_text)), blank])"
| "add_body (Paragraph content # rest) doc =
     add_body rest (doc @ [Par (P (Some ''BodyText'') (add_content content [])), blank])"
| "add_body (Table table_data # rest) doc =
     (case table_data of
        None \<Rightarrow> add_body rest doc
      | Some rows \<Rightarrow>
          if rows = [] then add_body rest doc
          else add_body rest
                 (doc @ [Odt_table (map (map (\<lambda>cell_data. P_text (Some ''BodyText'') (Some cell_data))) rows),
                         blank]))"

text \<open>
  One pass of the \<^verbatim>\<open>try\<close> block of the references loop. A reference is the dict the parser
  built; \<^verbatim>\<open>ref['text']\<close> and \<^verbatim>\<open>ref['id']\<close> raise KeyError on a dict without the key. The
  paragraph is added to the document by the last two statements of the block only. The
  text given to \<^verbatim>\<open>addText\<close> ends in \<^verbatim>\<open>" bibitem"\<close> and is never empty.
\<close>

definition add_reference :: "reference \<Rightarrow> odt_elem list \<Rightarrow> py_exn + odt_elem list" where
  "add_reference ref doc =
     (case map_of ref ''text'' of
        None \<Rightarrow> Inl (KeyError ''text'')
      | Some ref_text \<Rightarrow>
          (case map_of ref ''id'' of
             None \<Rightarrow> Inl (KeyError ''id'')
           | Some ref_id \<Rightarrow>
               Inr (doc @ [Par (P (Some ''BodyText'')
                                  [BookmarkStart ref_id, Text_node (ref_text @ '' bibitem''),
                                   BookmarkEnd ref_id]),
                           blank])))"

fun add_references :: "reference list \<Rightarrow> odt_elem list \<Rightarrow> odt_elem list" where
  \<comment> \<open>\<^verbatim>\<open>for ref in parsed_data["references"]\<close>, with the handler of its \<^verbatim>\<open>try\<close>\<close>
  "add_references [] doc = doc"
| "add_references (ref # rest) doc =
     (case add_reference ref doc of
        Inl e \<Rightarrow> add_references rest doc
      | Inr doc' \<Rightarrow> add_references rest doc')"

text \<open>
  The sections \<^verbatim>\<open># Add Title\<close>, \<^verbatim>\<open># Add Authors\<close>, \<^verbatim>\<open># Add Abstract\<close> and
  \<^verbatim>\<open># Add References Section\<close> of \<^verbatim>\<open>create_odt\<close>, each adding to \<^verbatim>\<open>doc.text\<close>, and the
  function that runs them in the order of the source.
\<close>

definition add_title :: "document_model \<Rightarrow> odt_elem list" where
  "add_title parsed_data = [Par (P_text (Some ''Title'') (title parsed_data))]"

definition add_authors :: "document_model \<Rightarrow> odt_elem list \<Rightarrow> odt_elem list" where
  "add_authors parsed_data doc =
     (if authors parsed_data \<noteq> [] then
        doc @ [Par (P_text (Some ''AuthorStyle'') (Some (join '', '' (authors parsed_data))))]
      else doc)"

definition add_abstract :: "document_model \<Rightarrow> odt_elem list \<Rightarrow> odt_elem list" where
  "add_abstract parsed_data doc =
     (if abstract parsed_data \<noteq> [] then
        doc @ [Par (P_text (Some ''Heading'') (Some ''Abstract'')),
               Par (P_text (Some ''AbstractStyle'') (Some (abstract parsed_data)))]
      else doc)"

definition add_references_section :: "document_model \<Rightarrow> odt_elem list \<Rightarrow> odt_elem list" where
  "add_references_section parsed_data doc =
     (if references parsed_data \<noteq> [] then
        add_references (references parsed_data)
          (doc @ [blank, Par (P_text (Some ''Heading'') (Some ''References'')), blank])
      else doc)"

definition create_odt :: "document_model \<Rightarrow> odt_document" where
  "create_odt parsed_data =
     \<lparr> doc_styles = five_styles,
       doc_text =
         add_references_section parsed_data
           (add_body (body_elements parsed_data)
              (add_abstract parsed_data (add_authors parsed_data (add_title parsed_data)))) \<rparr>"

section \<open>Identifiers of the bibliography\<close>

text \<open>
  The functions of this section read off the parser's input and output what the
  statements about reference identifiers speak of. They are not part of the program.
\<close>

definition reference_ids :: "reference list \<Rightarrow> string option list" where
  \<comment> \<open>\<^verbatim>\<open>ref['id']\<close> of every reference of the list\<close>
  "reference_ids refs = map (\<lambda>ref. map_of ref ''id'') refs"

definition fallback_ids :: "elem list \<Rightarrow> reference list \<Rightarrow> string option list" where
  \<comment> \<open>the ids of the references built from the entries without \<^verbatim>\<open>xml:id\<close>\<close>
  "fallback_ids bibliography refs =
     map (\<lambda>(entry, ref). map_of ref ''id'')
         (filter (\<lambda>(entry, ref). get entry XML_ID = None) (zip bibliography refs))"

definition explicit_ids :: "elem list \<Rightarrow> string list" where
  \<comment> \<open>the \<^verbatim>\<open>xml:id\<close> values the entries carry\<close>
  "explicit_ids bibliography = List.map_filter (\<lambda>entry. get entry XML_ID) bibliography"

definition synthesized_ids :: "nat \<Rightarrow> elem list \<Rightarrow> string list" where
  \<comment> \<open>\<^verbatim>\<open>"ref_" + str(k)\<close> for the positions k, counted from n, of the entries without \<^verbatim>\<open>xml:id\<close>\<close>
  "synthesized_ids n bibliography =
     map (\<lambda>(k, entry). ''ref_'' @ str_nat k)
         (filter (\<lambda>(k, entry). get entry XML_ID = None) (enumerate n bibliography))"

definition assigned_ids :: "nat \<Rightarrow> elem list \<Rightarrow> string list" where
  "assigned_ids n bibliography =
     map (\<lambda>(k, entry). get_default entry XML_ID (''ref_'' @ str_nat k))
         (enumerate n bibliography)"

definition targets_ok :: "span list \<Rightarrow> bool" where
  "targets_ok content =
     (\<forall>txt target rest. Ref_span txt target \<in> set content \<longrightarrow> target \<noteq> CHR ''#'' # rest)"

definition blocks_ok :: "block list \<Rightarrow> bool" where
  "blocks_ok bs = (\<forall>content. Paragraph content \<in> set bs \<longrightarrow> targets_ok content)"

section \<open>Sample documents\<close>

definition figure_tableless :: elem where
  "figure_tableless =
     Elem TEI ''figure'' [(''type'', ''table'')] None
       [Elem TEI ''head'' [] (Some ''Table 1'') [] None] None"

definition doc_tableless :: elem where
  "doc_tableless =
     Elem TEI ''TEI'' [] None
       [Elem TEI ''text'' [] None
          [Elem TEI ''body'' [] None [figure_tableless] None] None] None"

definition doc_hash :: elem where
  "doc_hash =
     Elem TEI ''TEI'' [] None
       [Elem TEI ''text'' [] None
          [Elem TEI ''body'' [] None
             [Elem TEI ''div'' [] None
               [Elem TEI ''p'' [] None
                 [Elem TEI ''ref'' [(''type'', ''bibr''), (''target'', ''##b0'')]
                    (Some ''Smith 2020'') [] None] None] None] None] None] None"

definition bibliography_doc :: "elem list \<Rightarrow> elem" where
  "bibliography_doc entries =
     Elem TEI ''TEI'' [] None
       [Elem TEI ''text'' [] None
          [Elem TEI ''back'' [] None
             [Elem TEI ''div'' [] None
                [Elem TEI ''listBibl'' [] None entries None] None] None] None] None"

definition doc_mixed :: elem where
  "doc_mixed = bibliography_doc
     [Elem TEI ''biblStruct'' [(XML_ID, ''b0'')] (Some ''A'') [] None,
      Elem TEI ''biblStruct'' [] (Some ''B'') [] None]"

definition doc_collide :: elem where
  "doc_collide = bibliography_doc
     [Elem TEI ''biblStruct'' [(XML_ID, ''ref_2'')] (Some ''A'') [] None,
      Elem TEI ''biblStruct'' [] (Some ''B'') [] None]"

definition doc_unnumbered :: elem where
  "doc_unnumbered = bibliography_doc
     [Elem TEI ''biblStruct'' [] (Some ''A'') [] None,
      Elem TEI ''biblStruct'' [] (Some ''B'') [] None]"

definition header_doc :: "elem list \<Rightarrow> elem" where
  "header_doc authors_list =
     Elem TEI ''TEI'' [] None
       [Elem TEI ''teiHeader'' [] None
          [Elem TEI ''fileDesc'' [] None
             [Elem TEI ''sourceDesc'' [] None
                [Elem TEI ''biblStruct'' [] None
                   [Elem TEI ''analytic'' [] None authors_list None] None] None] None] None] None"

definition forename_absent :: elem where
  "forename_absent = Elem TEI ''forename'' [(''type'', ''middle'')] None [] None"

definition persName_absent_first :: elem where
  "persName_absent_first =
     Elem TEI ''persName'' [] None
       [forename_absent, Elem TEI ''surname'' [] (Some ''Doe'') [] None] None"

definition persName_absent_second :: elem where
  "persName_absent_second =
     Elem TEI ''persName'' [] None
       [Elem TEI ''forename'' [(''type'', ''first'')] (Some ''John'') [] None,
        forename_absent,
        Elem TEI ''surname'' [] (Some ''Doe'') [] None] None"

definition doc_absent_first :: elem where
  "doc_absent_first = header_doc [Elem TEI ''author'' [] None [persName_absent_first] None]"

definition doc_absent_second :: elem where
  "doc_absent_second = header_doc [Elem TEI ''author'' [] None [persName_absent_second] None]"

definition doc_two_titles :: elem where
  "doc_two_titles =
     Elem TEI ''TEI'' [] None
       [Elem TEI ''teiHeader'' [] None
          [Elem TEI ''fileDesc'' [] None
             [Elem TEI ''titleStmt'' [] None
                [Elem TEI ''title'' [(''level'', ''a''), (''type'', ''sub'')] (Some ''Zeroth'') [] None,
                 Elem TEI ''title'' [(''level'', ''a''), (''type'', ''main'')] (Some ''First'') [] None,
                 Elem TEI ''title'' [(''type'', ''main'')] (Some ''Second'') [] None]
                None] None] None] None"

definition title_markup :: elem where
  \<comment> \<open>\<^verbatim>\<open><title type="main">Deep <hi>learning</hi> for TEI</title>\<close>\<close>
  "title_markup =
     Elem TEI ''title'' [(''type'', ''main'')] (Some ''Deep '')
       [Elem TEI ''hi'' [] (Some ''learning'') [] (Some '' for TEI'')] None"

definition title_empty :: elem where
  \<comment> \<open>\<^verbatim>\<open><title type="main"/>\<close>\<close>
  "title_empty = Elem TEI ''title'' [(''type'', ''main'')] None [] None"

definition title_doc :: "elem \<Rightarrow> elem" where
  "title_doc title_elem =
     Elem TEI ''TEI'' [] None
       [Elem TEI ''teiHeader'' [] None
          [Elem TEI ''fileDesc'' [] None
             [Elem TEI ''titleStmt'' [] None [title_elem] None] None] None] None"

definition doc_empty_abstract :: elem where
  "doc_empty_abstract =
     Elem TEI ''TEI'' [] None
       [Elem TEI ''teiHeader'' [] None
          [Elem TEI ''profileDesc'' [] None
             [Elem TEI ''abstract'' [] None [] None] None] None] None"

definition model_three_refs :: document_model where
  "model_three_refs =
     \<lparr> title = Some ''T'', authors = [], abstract = [], body_elements = [],
       references = [[(''id'', ''b0''), (''text'', ''A'')],
                     [(''id'', ''b1'')],
                     [(''id'', ''b2''), (''text'', ''C'')]] \<rparr>"

section \<open>Auxiliary facts\<close>

declare str_nat.simps [simp del]

lemma str_nat_small:
  "str_nat 1 = ''1''" "str_nat 2 = ''2''" "str_nat (Suc 0) = ''1''" "str_nat (Suc (Suc 0)) = ''2''"
  by code_simp+

lemmas eval_defs = parse_tei_def parse_tei_try_def Let_def xpath_child_def xpath_desc_def
  tei_def get_def get_default_def find_child_def name_parts_def join_opt_def strip_def
  isspace_def str_nat_small

subsection \<open>Decimal numerals are injective\<close>

lemma of_char_digit_char: "d < 10 \<Longrightarrow> of_char (digit_char d) = 48 + d"
  by (simp add: digit_char_def)

lemma digit_char_inj:
  assumes "a < 10" and "b < 10" and "digit_char a = digit_char b"
  shows "a = b"
proof -
  have "48 + a = (of_char (digit_char a) :: nat)"
    using assms(1) by (simp only: of_char_digit_char)
  also have "\<dots> = of_char (digit_char b)"
    by (simp only: assms(3))
  also have "\<dots> = 48 + b"
    using assms(2) by (simp only: of_char_digit_char)
  finally show ?thesis by simp
qed

lemma str_nat_nonempty: "str_nat n \<noteq> []"
  by (subst str_nat.simps) simp

lemma str_nat_inj: "str_nat n = str_nat m \<Longrightarrow> n = m"
proof (induction n arbitrary: m rule: str_nat.induct)
  case (1 n)
  show ?case
  proof (cases "n < 10")
    case n: True
    show ?thesis
    proof (cases "m < 10")
      case True
      with n "1.prems" show ?thesis
        by (simp add: str_nat.simps[of n] str_nat.simps[of m] digit_char_inj)
    next
      case False
      with n "1.prems" str_nat_nonempty[of "m div 10"] show ?thesis
        by (simp add: str_nat.simps[of n] str_nat.simps[of m] Cons_eq_append_conv)
    qed
  next
    case n: False
    show ?thesis
    proof (cases "m < 10")
      case True
      with n "1.prems" str_nat_nonempty[of "n div 10"] show ?thesis
        by (simp add: str_nat.simps[of n] str_nat.simps[of m] append_eq_Cons_conv)
    next
      case False
      with n "1.prems" have e: "str_nat (n div 10) = str_nat (m div 10)"
        and d: "digit_char (n mod 10) = digit_char (m mod 10)"
        by (simp_all add: str_nat.simps[of n] str_nat.simps[of m])
      have "n div 10 = m div 10" using "1.IH"[OF n e] .
      moreover have "n mod 10 = m mod 10" using d by (simp add: digit_char_inj)
      ultimately show ?thesis by (metis div_mult_mod_eq)
    qed
  qed
qed

subsection \<open>The references loop\<close>

lemma references_loop_enumerate:
  "references_loop bib refs =
     refs @ map (\<lambda>(k, ref). [(''id'', get_default ref XML_ID (''ref_'' @ str_nat k)),
                               (''text'', strip (join '' '' (itertext ref)))])
                (enumerate (length refs + 1) bib)"
  by (induction bib arbitrary: refs) simp_all

lemma parse_tei_references:
  "parse_tei (Inr tree) = Some parsed \<Longrightarrow>
   references parsed = references_loop (bibliography_xpath tree) []"
  by (auto simp: parse_tei_def parse_tei_try_def Let_def split: sum.splits)

lemma reference_ids_assigned:
  "reference_ids (references_loop bib []) = map Some (assigned_ids 1 bib)"
  by (simp add: reference_ids_def references_loop_enumerate assigned_ids_def case_prod_unfold)

lemma assigned_ids_Cons:
  "assigned_ids n (e # es) =
     get_default e XML_ID (''ref_'' @ str_nat n) # assigned_ids (Suc n) es"
  by (simp add: assigned_ids_def)

lemma synthesized_ids_Nil: "synthesized_ids n [] = []"
  by (simp add: synthesized_ids_def)

lemma synthesized_ids_Cons:
  "synthesized_ids n (e # es) =
     (if get e XML_ID = None then [''ref_'' @ str_nat n] else []) @ synthesized_ids (Suc n) es"
  by (simp add: synthesized_ids_def)

lemma explicit_ids_Cons:
  "explicit_ids (e # es) = (case get e XML_ID of None \<Rightarrow> [] | Some i \<Rightarrow> [i]) @ explicit_ids es"
  by (simp add: explicit_ids_def List.map_filter_simps split: option.splits)

lemma synthesized_ids_ge:
  "x \<in> set (synthesized_ids n bib) \<Longrightarrow> \<exists>k\<ge>n. x = ''ref_'' @ str_nat k"
  by (auto simp: synthesized_ids_def in_set_enumerate_eq)

lemma fresh_synthesized: "''ref_'' @ str_nat n \<notin> set (synthesized_ids (Suc n) bib)"
proof
  assume "''ref_'' @ str_nat n \<in> set (synthesized_ids (Suc n) bib)"
  then obtain k where "k \<ge> Suc n" and "''ref_'' @ str_nat n = ''ref_'' @ str_nat k"
    using synthesized_ids_ge by blast
  then show False using str_nat_inj[of n k] by simp
qed

lemma distinct_synthesized: "distinct (synthesized_ids n bib)"
proof (induction bib arbitrary: n)
  case Nil
  show ?case by (simp add: synthesized_ids_Nil)
next
  case (Cons e es)
  show ?case
    using Cons.IH[of "Suc n"] fresh_synthesized[of n es]
    by (auto simp: synthesized_ids_Cons)
qed

lemma set_assigned_ids:
  "set (assigned_ids n bib) = set (explicit_ids bib) \<union> set (synthesized_ids n bib)"
proof (induction bib arbitrary: n)
  case Nil
  then show ?case
    by (simp add: assigned_ids_def explicit_ids_def synthesized_ids_def List.map_filter_simps)
next
  case (Cons e es)
  show ?case
    by (cases "get e XML_ID")
       (auto simp: assigned_ids_Cons synthesized_ids_Cons explicit_ids_Cons Cons.IH
          get_default_def get_def)
qed

lemma distinct_assigned_ids:
  "distinct (assigned_ids n bib) \<longleftrightarrow>
     distinct (explicit_ids bib) \<and> set (explicit_ids bib) \<inter> set (synthesized_ids n bib) = {}"
proof (induction bib arbitrary: n)
  case Nil
  then show ?case
    by (simp add: assigned_ids_def explicit_ids_def synthesized_ids_def List.map_filter_simps)
next
  case (Cons e es)
  show ?case
  proof (cases "get e XML_ID")
    case None
    then show ?thesis
      using fresh_synthesized[of n es]
      by (auto simp: assigned_ids_Cons synthesized_ids_Cons explicit_ids_Cons Cons.IH
          set_assigned_ids get_default_def get_def)
  next
    case (Some i)
    then show ?thesis
      by (auto simp: assigned_ids_Cons synthesized_ids_Cons explicit_ids_Cons Cons.IH
          set_assigned_ids get_default_def get_def)
  qed
qed

lemma zip_map_enumerate:
  "zip xs (map f (enumerate n xs)) = map (\<lambda>(k, x). (x, f (k, x))) (enumerate n xs)"
  by (induction xs arbitrary: n) simp_all

lemma fallback_ids_synthesized:
  "fallback_ids bib (references_loop bib []) = map Some (synthesized_ids 1 bib)"
proof -
  have "fallback_ids bib (references_loop bib []) =
      map (\<lambda>(k, e). Some (get_default e XML_ID (''ref_'' @ str_nat k)))
        (filter (\<lambda>(k, e). get e XML_ID = None) (enumerate 1 bib))"
    by (simp add: fallback_ids_def references_loop_enumerate zip_map_enumerate filter_map
        comp_def case_prod_unfold)
  also have "\<dots> = map (\<lambda>(k, e). Some (''ref_'' @ str_nat k))
        (filter (\<lambda>(k, e). get e XML_ID = None) (enumerate 1 bib))"
    by (rule map_cong) (auto simp: get_default_def get_def)
  finally show ?thesis by (simp add: synthesized_ids_def case_prod_unfold comp_def)
qed

lemma synthesized_ids_all:
  assumes "\<forall>entry \<in> set bib. get entry XML_ID = None"
  shows "synthesized_ids n bib = map (\<lambda>k. ''ref_'' @ str_nat k) [n..<n + length bib]"
proof -
  have "filter (\<lambda>(k, entry). get entry XML_ID = None) (enumerate n bib) = enumerate n bib"
    using assms by (auto simp: filter_id_conv in_set_enumerate_eq)
  then have s: "synthesized_ids n bib =
      map (\<lambda>(k, entry). ''ref_'' @ str_nat k) (enumerate n bib)"
    by (simp only: synthesized_ids_def)
  have m: "map (\<lambda>(k, entry). ''ref_'' @ str_nat k) (enumerate n bib) =
           map (\<lambda>k. ''ref_'' @ str_nat k) (map fst (enumerate n bib))"
    by (simp add: case_prod_unfold comp_def del: map_fst_enumerate)
  show ?thesis by (simp only: s m map_fst_enumerate)
qed

subsection \<open>Citation targets along the traversals\<close>

lemma lstrip_no_lead: "lstrip c s \<noteq> c # rest"
proof
  assume "lstrip c s = c # rest"
  then have "dropWhile (\<lambda>x. x = c) s = c # rest" by (simp add: lstrip_def)
  then have "\<not> (c = c)" by (simp add: dropWhile_eq_Cons_conv)
  then show False by simp
qed

lemma targets_ok_Nil: "targets_ok []"
  by (simp add: targets_ok_def)

lemma targets_ok_append_text: "targets_ok content \<Longrightarrow> targets_ok (append_text s content)"
  by (auto simp: targets_ok_def append_text_def split: option.splits)

lemma targets_ok_ref:
  "targets_ok content \<Longrightarrow> targets_ok (content @ [Ref_span x (lstrip CHR ''#'' y)])"
  by (auto simp: targets_ok_def lstrip_no_lead)

lemma recurse_targets_ok:
  "targets_ok content \<Longrightarrow> targets_ok (recurse e content)"
  "targets_ok content \<Longrightarrow> targets_ok (recurse_children es content)"
proof (induction e content and es content rule: recurse_recurse_children.induct)
  case (1 n l a t cs tt content)
  then show ?case by (simp add: targets_ok_append_text)
next
  case (2 content)
  then show ?case by simp
next
  case (3 child cs content)
  show ?case
  proof (cases "localname child = ''ref'' \<and> get child ''type'' = Some ''bibr''")
    case True
    have "targets_ok (append_text (tail child) (content @
            [Ref_span (concat (itertext child))
               (lstrip CHR ''#'' (get_default child ''target'' []))]))"
      using "3.prems" by (intro targets_ok_append_text targets_ok_ref)
    then have "targets_ok (recurse_children cs (append_text (tail child) (content @
            [Ref_span (concat (itertext child))
               (lstrip CHR ''#'' (get_default child ''target'' []))])))"
      using "3.IH"(1)[OF True refl refl] by blast
    then show ?thesis using True by (simp add: Let_def)
  next
    case False
    have "targets_ok (recurse child content)"
      using "3.IH"(2)[OF False] "3.prems" by blast
    then have "targets_ok (append_text (tail child) (recurse child content))"
      by (rule targets_ok_append_text)
    then have "targets_ok (recurse_children cs (append_text (tail child) (recurse child content)))"
      using "3.IH"(3)[OF False] by blast
    then show ?thesis using False by auto
  qed
qed

lemma blocks_ok_snoc:
  "blocks_ok bs \<Longrightarrow> blocks_ok (bs @ [Heading h])"
  "blocks_ok bs \<Longrightarrow> blocks_ok (bs @ [Table r])"
  "blocks_ok bs \<Longrightarrow> blocks_ok (bs @ [Paragraph (get_paragraph_content e)])"
  using recurse_targets_ok(1)[OF targets_ok_Nil, of e]
  by (auto simp: blocks_ok_def get_paragraph_content_def)

lemma process_body_ok:
  "blocks_ok acc \<Longrightarrow> blocks_ok (process_body_elements e acc)"
  "blocks_ok acc \<Longrightarrow> blocks_ok (process_body_loop es acc)"
proof (induction e acc and es acc rule: process_body_elements_process_body_loop.induct)
  case (1 n l a t cs tt body_elems)
  then show ?case by simp
next
  case (2 body_elems)
  then show ?case by simp
next
  case (3 elem rest body_elems)
  note ok = "3.prems"
  consider (head) "localname elem = ''head''"
    | (p) "localname elem \<noteq> ''head''" "localname elem = ''p''"
    | (div) "localname elem \<noteq> ''head''" "localname elem \<noteq> ''p''" "localname elem = ''div''"
    | (fig) "localname elem \<noteq> ''head''" "localname elem \<noteq> ''p''" "localname elem \<noteq> ''div''"
        "localname elem = ''figure'' \<and> get elem ''type'' = Some ''table''"
    | (other) "localname elem \<noteq> ''head''" "localname elem \<noteq> ''p''" "localname elem \<noteq> ''div''"
        "\<not> (localname elem = ''figure'' \<and> get elem ''type'' = Some ''table'')"
    by blast
  then show ?case
  proof cases
    case head
    have "blocks_ok (process_body_loop rest
            (body_elems @ [Heading (strip (concat (itertext elem)))]))"
      using "3.IH"(1)[OF head] blocks_ok_snoc(1)[OF ok] by blast
    then show ?thesis using head by simp
  next
    case p
    have "blocks_ok (process_body_loop rest
            (body_elems @ [Paragraph (get_paragraph_content elem)]))"
      using "3.IH"(2)[OF p] blocks_ok_snoc(3)[OF ok] by blast
    then show ?thesis using p by simp
  next
    case div
    have "blocks_ok (process_body_elements elem body_elems)"
      using "3.IH"(3)[OF div] ok by blast
    then have "blocks_ok (process_body_loop rest (process_body_elements elem body_elems))"
      using "3.IH"(4)[OF div] by blast
    then show ?thesis using div by simp
  next
    case fig
    have "blocks_ok (process_body_loop rest (body_elems @ [Table (parse_table elem)]))"
      using "3.IH"(5)[OF fig] blocks_ok_snoc(2)[OF ok] by blast
    then show ?thesis using fig by simp
  next
    case other
    have "blocks_ok (process_body_loop rest body_elems)"
      using "3.IH"(6)[OF other] ok by blast
    then show ?thesis using other by auto
  qed
qed

lemma parse_tei_blocks_ok:
  assumes "parse_tei tei_file = Some parsed"
  shows "blocks_ok (body_elements parsed)"
proof -
  have nil: "blocks_ok []" by (simp add: blocks_ok_def)
  obtain tree where
    b: "body_elements parsed =
          (case body_xpath tree of [] \<Rightarrow> [] | b # _ \<Rightarrow> process_body_elements b [])"
    using assms
    by (auto simp: parse_tei_def parse_tei_try_def Let_def split: sum.splits)
  show ?thesis
    unfolding b using nil process_body_ok(1)[OF nil]
    by (simp split: list.splits)
qed

subsection \<open>Joining name parts, the abstract, the references of the renderer\<close>

lemma join_opt_None: "None \<in> set parts \<Longrightarrow> join_opt sep parts = Inl TypeError"
proof -
  have "None \<in> set parts \<Longrightarrow> all_str parts = None"
    by (induction parts rule: all_str.induct) (auto split: option.splits)
  then show "None \<in> set parts \<Longrightarrow> join_opt sep parts = Inl TypeError"
    by (simp add: join_opt_def)
qed

lemma join_opt_raises: "join_opt sep parts = Inl e \<Longrightarrow> e = TypeError"
  by (auto simp: join_opt_def split: option.splits)

lemma authors_loop_raises:
  "author \<in> set as \<Longrightarrow> join_opt '' '' (name_parts author) = Inl TypeError \<Longrightarrow>
   authors_loop as acc = Inl TypeError"
proof (induction as arbitrary: acc)
  case Nil
  then show ?case by simp
next
  case (Cons a as)
  show ?case
  proof (cases "join_opt '' '' (name_parts a)")
    case (Inl e)
    then show ?thesis using join_opt_raises[OF Inl] by simp
  next
    case (Inr full_name)
    then have "author \<in> set as" using Cons.prems by auto
    then show ?thesis using Cons.IH Cons.prems(2) Inr by simp
  qed
qed

lemma parse_tei_title:
  "parse_tei (Inr tree) = Some parsed \<Longrightarrow>
   title parsed = (case title_xpath tree of [] \<Rightarrow> Some ''N/A'' | t # _ \<Rightarrow> etext t)"
  by (auto simp: parse_tei_def parse_tei_try_def Let_def split: sum.splits)

lemma parse_tei_abstract:
  "parse_tei (Inr tree) = Some parsed \<Longrightarrow>
   abstract parsed =
     (case abstract_xpath tree of [] \<Rightarrow> [] | a # _ \<Rightarrow> strip (concat (itertext a)))"
  by (auto simp: parse_tei_def parse_tei_try_def Let_def split: sum.splits)

lemma itertext_empty:
  "children a = [] \<Longrightarrow> etext a = None \<or> etext a = Some [] \<Longrightarrow> concat (itertext a) = []"
  by (cases a) auto

lemma strip_Nil: "strip [] = []"
  by (simp add: strip_def)

lemma add_reference_raises_any:
  "add_reference ref doc0 = Inl e \<Longrightarrow> add_reference ref doc = Inl e"
  by (auto simp: add_reference_def split: option.splits)

lemma add_references_append:
  "add_references (xs @ ys) doc = add_references ys (add_references xs doc)"
  by (induction xs arbitrary: doc) (simp_all split: sum.splits)

section \<open>Table-typed figures without a table\<close>

text \<open>
  C1. A \<^verbatim>\<open>figure\<close> element that the body traversal meets (a child of the body or of
  nested \<^verbatim>\<open>div\<close> elements), carrying the table-type attribute but holding no nested table
  element, raises no error, and it is not dropped by the parser: the body traversal
  appends exactly one Table block for it, whose row data is absent (\<^verbatim>\<open>None\<close>), and goes
  on with the next sibling. It is the renderer that emits nothing for such a block.
\<close>

theorem tableless_figure_block:
  assumes "localname figure_elem = ''figure''"
    and "get figure_elem ''type'' = Some ''table''"
    and "find_child (tei ''table'') figure_elem = None"
  shows "process_body_loop (figure_elem # rest) body_elems =
           process_body_loop rest (body_elems @ [Table None])
       \<and> add_body (Table None # blocks) doc = add_body blocks doc"
  using assms by (simp add: parse_table_def)

theorem tableless_figure_block_witness:
  "localname figure_tableless = ''figure''
   \<and> get figure_tableless ''type'' = Some ''table''
   \<and> find_child (tei ''table'') figure_tableless = None
   \<and> process_body_loop [figure_tableless] [] = [Table None]
   \<and> add_body [Table None] [] = []"
proof -
  have 1: "localname figure_tableless = ''figure''"
    by (simp add: figure_tableless_def)
  have 2: "get figure_tableless ''type'' = Some ''table''"
    by (simp add: figure_tableless_def get_def)
  have 3: "find_child (tei ''table'') figure_tableless = None"
    by (simp add: figure_tableless_def find_child_def tei_def)
  from tableless_figure_block[OF 1 2 3, of "[]" "[]" "[]" "[]"] 1 2 3 show ?thesis by simp
qed

text \<open>
  The document \<open>doc_tableless\<close> has a body with one such figure; its Document Model has
  a Table block in \<open>body_elements\<close>.
\<close>

theorem tableless_figure_counterexample:
  "localname figure_tableless = ''figure''
   \<and> get figure_tableless ''type'' = Some ''table''
   \<and> find_child (tei ''table'') figure_tableless = None
   \<and> parse_tei (Inr doc_tableless) =
       Some \<lparr> title = Some ''N/A'', authors = [], abstract = [],
              body_elements = [Table None], references = [] \<rparr>"
  by (simp add: doc_tableless_def figure_tableless_def eval_defs find_child_def parse_table_def)

section \<open>Fallback identifiers of references\<close>

text \<open>
  C2. For the bibliography entries without an explicit identifier, the ids the parser
  assigns are pairwise distinct, and each is \<^verbatim>\<open>"ref_"\<close> followed by the 1-based position of
  its entry among all the bibliography entries, with or without identifier, in encounter
  order. They are exactly \<^verbatim>\<open>"ref_1"\<close>, \<^verbatim>\<open>"ref_2"\<close>, \<dots> when no entry of the document carries
  an explicit identifier.
\<close>

theorem fallback_ids_by_position:
  assumes "parse_tei (Inr tree) = Some parsed"
  shows "fallback_ids (bibliography_xpath tree) (references parsed) =
           map (\<lambda>(k, entry). Some (''ref_'' @ str_nat k))
               (filter (\<lambda>(k, entry). get entry XML_ID = None)
                       (enumerate 1 (bibliography_xpath tree)))
       \<and> distinct (fallback_ids (bibliography_xpath tree) (references parsed))
       \<and> ((\<forall>entry \<in> set (bibliography_xpath tree). get entry XML_ID = None) \<longrightarrow>
            fallback_ids (bibliography_xpath tree) (references parsed) =
              map (\<lambda>k. Some (''ref_'' @ str_nat k))
                  [1..<Suc (length (bibliography_xpath tree))])"
proof -
  let ?bib = "bibliography_xpath tree"
  have f: "fallback_ids ?bib (references parsed) = map Some (synthesized_ids 1 ?bib)"
    using parse_tei_references[OF assms] fallback_ids_synthesized[of ?bib] by simp
  have 1: "fallback_ids ?bib (references parsed) =
           map (\<lambda>(k, entry). Some (''ref_'' @ str_nat k))
               (filter (\<lambda>(k, entry). get entry XML_ID = None) (enumerate 1 ?bib))"
    unfolding f by (simp add: synthesized_ids_def case_prod_unfold comp_def)
  have 2: "distinct (fallback_ids ?bib (references parsed))"
    unfolding f by (simp add: distinct_map distinct_synthesized)
  have 3: "fallback_ids ?bib (references parsed) =
              map (\<lambda>k. Some (''ref_'' @ str_nat k)) [1..<Suc (length ?bib)]"
    if "\<forall>entry \<in> set ?bib. get entry XML_ID = None"
    unfolding f synthesized_ids_all[OF that] by (simp add: comp_def)
  from 1 2 3 show ?thesis by blast
qed

theorem fallback_ids_by_position_witness:
  "parse_tei (Inr doc_unnumbered) =
     Some \<lparr> title = Some ''N/A'', authors = [], abstract = [], body_elements = [],
            references = [[(''id'', ''ref_1''), (''text'', ''A'')],
                          [(''id'', ''ref_2''), (''text'', ''B'')]] \<rparr>
   \<and> bibliography_xpath doc_unnumbered =
       [Elem TEI ''biblStruct'' [] (Some ''A'') [] None,
        Elem TEI ''biblStruct'' [] (Some ''B'') [] None]
   \<and> get (Elem TEI ''biblStruct'' [] (Some ''A'') [] None) XML_ID = None
   \<and> get (Elem TEI ''biblStruct'' [] (Some ''B'') [] None) XML_ID = None
   \<and> fallback_ids (bibliography_xpath doc_unnumbered)
        [[(''id'', ''ref_1''), (''text'', ''A'')], [(''id'', ''ref_2''), (''text'', ''B'')]]
      = [Some ''ref_1'', Some ''ref_2'']
   \<and> distinct [Some ''ref_1'', Some ''ref_2'']"
proof -
  have p: "parse_tei (Inr doc_unnumbered) =
     Some \<lparr> title = Some ''N/A'', authors = [], abstract = [], body_elements = [],
            references = [[(''id'', ''ref_1''), (''text'', ''A'')],
                          [(''id'', ''ref_2''), (''text'', ''B'')]] \<rparr>"
    by (simp add: doc_unnumbered_def bibliography_doc_def eval_defs)
  have b: "bibliography_xpath doc_unnumbered =
     [Elem TEI ''biblStruct'' [] (Some ''A'') [] None,
      Elem TEI ''biblStruct'' [] (Some ''B'') [] None]"
    by (simp add: doc_unnumbered_def bibliography_doc_def eval_defs)
  have g: "get (Elem TEI ''biblStruct'' [] (Some ''A'') [] None) XML_ID = None"
    "get (Elem TEI ''biblStruct'' [] (Some ''B'') [] None) XML_ID = None"
    by (simp_all add: get_def)
  have h: "\<forall>entry \<in> set (bibliography_xpath doc_unnumbered). get entry XML_ID = None"
    by (simp add: b get_def)
  have u: "[1..<Suc (length (bibliography_xpath doc_unnumbered))] = [1, 2]"
    unfolding b by (simp add: upt_rec)
  from fallback_ids_by_position[OF p] h
  have "fallback_ids (bibliography_xpath doc_unnumbered)
        (references \<lparr> title = Some ''N/A'', authors = [], abstract = [], body_elements = [],
            references = [[(''id'', ''ref_1''), (''text'', ''A'')],
                          [(''id'', ''ref_2''), (''text'', ''B'')]] \<rparr>)
      = map (\<lambda>k. Some (''ref_'' @ str_nat k))
            [1..<Suc (length (bibliography_xpath doc_unnumbered))]"
    by blast
  then have "fallback_ids (bibliography_xpath doc_unnumbered)
        [[(''id'', ''ref_1''), (''text'', ''A'')], [(''id'', ''ref_2''), (''text'', ''B'')]]
      = [Some ''ref_1'', Some ''ref_2'']"
    unfolding u by (simp add: str_nat_small)
  with p b g show ?thesis by simp
qed

text \<open>
  In \<open>doc_mixed\<close> the first entry has the identifier \<^verbatim>\<open>b0\<close> and the second has none: the
  only fallback id of the document is \<^verbatim>\<open>"ref_2"\<close>, not \<^verbatim>\<open>"ref_1"\<close>.
\<close>

theorem fallback_ids_counterexample:
  "parse_tei (Inr doc_mixed) =
     Some \<lparr> title = Some ''N/A'', authors = [], abstract = [], body_elements = [],
            references = [[(''id'', ''b0''), (''text'', ''A'')],
                          [(''id'', ''ref_2''), (''text'', ''B'')]] \<rparr>
   \<and> fallback_ids (bibliography_xpath doc_mixed)
        [[(''id'', ''b0''), (''text'', ''A'')], [(''id'', ''ref_2''), (''text'', ''B'')]]
      = [Some ''ref_2'']
   \<and> [Some ''ref_2''] \<noteq> [Some ''ref_1'']"
  by (simp add: doc_mixed_def bibliography_doc_def eval_defs fallback_ids_def XML_ID_def)

section \<open>Uniqueness of reference identifiers\<close>

text \<open>
  C3. The ids of the references list of a Document Model are pairwise distinct exactly
  when the explicit identifiers of the source are pairwise distinct and none of them
  equals a fallback id \<^verbatim>\<open>"ref_k"\<close> synthesized in the same document (k the 1-based position
  of an entry without identifier). In particular they are distinct when no entry carries
  an explicit identifier; an explicit identifier of the form \<^verbatim>\<open>"ref_k"\<close> can collide
  with a synthesized one.
\<close>

theorem reference_ids_distinct_iff:
  assumes "parse_tei (Inr tree) = Some parsed"
  shows "distinct (reference_ids (references parsed)) \<longleftrightarrow>
           distinct (explicit_ids (bibliography_xpath tree))
           \<and> set (explicit_ids (bibliography_xpath tree))
               \<inter> set (synthesized_ids 1 (bibliography_xpath tree)) = {}"
  using parse_tei_references[OF assms] reference_ids_assigned[of "bibliography_xpath tree"]
    distinct_assigned_ids[of 1 "bibliography_xpath tree"]
  by (simp add: distinct_map)

theorem reference_ids_distinct_iff_witness:
  "parse_tei (Inr doc_mixed) =
     Some \<lparr> title = Some ''N/A'', authors = [], abstract = [], body_elements = [],
            references = [[(''id'', ''b0''), (''text'', ''A'')],
                          [(''id'', ''ref_2''), (''text'', ''B'')]] \<rparr>
   \<and> explicit_ids (bibliography_xpath doc_mixed) = [''b0'']
   \<and> synthesized_ids 1 (bibliography_xpath doc_mixed) = [''ref_2'']
   \<and> distinct (reference_ids
        [[(''id'', ''b0''), (''text'', ''A'')], [(''id'', ''ref_2''), (''text'', ''B'')]])"
proof -
  have p: "parse_tei (Inr doc_mixed) =
     Some \<lparr> title = Some ''N/A'', authors = [], abstract = [], body_elements = [],
            references = [[(''id'', ''b0''), (''text'', ''A'')],
                          [(''id'', ''ref_2''), (''text'', ''B'')]] \<rparr>"
    by (simp add: doc_mixed_def bibliography_doc_def eval_defs XML_ID_def)
  have e: "explicit_ids (bibliography_xpath doc_mixed) = [''b0'']"
    by (simp add: doc_mixed_def bibliography_doc_def eval_defs explicit_ids_def
        List.map_filter_simps XML_ID_def)
  have s: "synthesized_ids 1 (bibliography_xpath doc_mixed) = [''ref_2'']"
    by (simp add: doc_mixed_def bibliography_doc_def eval_defs synthesized_ids_def XML_ID_def)
  from reference_ids_distinct_iff[OF p] e s p show ?thesis by simp
qed

text \<open>
  In \<open>doc_collide\<close> the first entry has the explicit identifier \<^verbatim>\<open>ref_2\<close> and the second
  entry has none: both references get the id \<^verbatim>\<open>"ref_2"\<close>.
\<close>

theorem reference_ids_counterexample:
  "parse_tei (Inr doc_collide) =
     Some \<lparr> title = Some ''N/A'', authors = [], abstract = [], body_elements = [],
            references = [[(''id'', ''ref_2''), (''text'', ''A'')],
                          [(''id'', ''ref_2''), (''text'', ''B'')]] \<rparr>
   \<and> \<not> distinct (reference_ids
        [[(''id'', ''ref_2''), (''text'', ''A'')], [(''id'', ''ref_2''), (''text'', ''B'')]])"
  by (simp add: doc_collide_def bibliography_doc_def eval_defs XML_ID_def reference_ids_def)

section \<open>Inline content of a paragraph\<close>

text \<open>
  C4. The paragraph element \<^verbatim>\<open><p>See <ref type="bibr" target="#b0">Smith 2020</ref> for
  details.</p>\<close> is, as a tree, a \<^verbatim>\<open>p\<close> with text \<^verbatim>\<open>"See "\<close> and one child \<^verbatim>\<open>ref\<close> with text
  \<^verbatim>\<open>"Smith 2020"\<close> and tail \<^verbatim>\<open>" for details."\<close>. In any namespace, \<open>get_paragraph_content\<close>
  returns the three spans Text, CitationRef with target \<^verbatim>\<open>b0\<close>, Text in this order,
  and the body traversal turns the element into one Paragraph block with this content.
\<close>

theorem paragraph_with_citation:
  "get_paragraph_content
     (Elem nsp ''p'' [] (Some ''See '')
        [Elem nsr ''ref'' [(''type'', ''bibr''), (''target'', ''#b0'')] (Some ''Smith 2020'') []
           (Some '' for details.'')] tt)
   = [Text_span ''See '', Ref_span ''Smith 2020'' ''b0'', Text_span '' for details.'']
   \<and> process_body_loop
     [Elem nsp ''p'' [] (Some ''See '')
        [Elem nsr ''ref'' [(''type'', ''bibr''), (''target'', ''#b0'')] (Some ''Smith 2020'') []
           (Some '' for details.'')] tt] []
   = [Paragraph [Text_span ''See '', Ref_span ''Smith 2020'' ''b0'',
                 Text_span '' for details.'']]"
  by (simp add: get_paragraph_content_def append_text_def get_def get_default_def lstrip_def)

section \<open>Exceptions during the parse\<close>

text \<open>
  C5. Whenever the body of the \<^verbatim>\<open>try\<close> statement of \<^verbatim>\<open>parse_tei\<close> raises an exception, be it
  \<^verbatim>\<open>etree.parse\<close> on a malformed file or the joining of the name parts of an author,
  \<^verbatim>\<open>parse_tei\<close> returns \<^verbatim>\<open>None\<close>: no Document Model is returned and the exception does not
  reach the caller.
\<close>

theorem parse_exception_gives_None:
  assumes "parse_tei_try tei_file = Inl e"
  shows "parse_tei tei_file = None"
  using assms by (simp add: parse_tei_def)

theorem parse_exception_gives_None_witness:
  "parse_tei_try (Inl XMLSyntaxError) = Inl XMLSyntaxError
   \<and> parse_tei (Inl XMLSyntaxError) = None
   \<and> parse_tei_try (Inr doc_absent_first) = Inl TypeError
   \<and> parse_tei (Inr doc_absent_first) = None"
proof -
  have 1: "parse_tei_try (Inl XMLSyntaxError) = Inl XMLSyntaxError"
    by (simp add: parse_tei_try_def)
  have 2: "parse_tei_try (Inr doc_absent_first) = Inl TypeError"
    by (simp add: doc_absent_first_def header_doc_def persName_absent_first_def
        forename_absent_def eval_defs)
  from parse_exception_gives_None[OF 1] parse_exception_gives_None[OF 2] 1 2
  show ?thesis by blast
qed

section \<open>A failing reference in the renderer\<close>

text \<open>
  C6. If adding the paragraph of one reference raises an exception, the handler inside
  the loop catches it: the document gets no paragraph for this reference, the references
  before it and after it are rendered as if it were not in the list, and \<open>create_odt\<close>
  delivers the document (references heading, then the paragraphs of the other
  references).
\<close>

theorem failing_reference_is_skipped:
  assumes "add_reference ref doc0 = Inl e"
  shows "add_references (before @ ref # after) doc =
           add_references after (add_references before doc)
       \<and> doc_text (create_odt (parsed\<lparr>references := before @ ref # after\<rparr>)) =
           add_references after
             (add_references before
                (add_body (body_elements parsed)
                   (add_abstract parsed (add_authors parsed (add_title parsed)))
                 @ [blank, Par (P_text (Some ''Heading'') (Some ''References'')), blank]))"
proof -
  have skip: "add_references (ref # after) d = add_references after d" for d
    using add_reference_raises_any[OF assms, of d] by simp
  have loop: "add_references (before @ ref # after) d =
           add_references after (add_references before d)" for d
    by (simp only: add_references_append skip)
  have pre: "add_title (parsed\<lparr>references := rs\<rparr>) = add_title parsed"
    "add_authors (parsed\<lparr>references := rs\<rparr>) d = add_authors parsed d"
    "add_abstract (parsed\<lparr>references := rs\<rparr>) d = add_abstract parsed d" for rs d
    by (simp_all add: add_title_def add_authors_def add_abstract_def)
  show ?thesis
    by (simp add: loop create_odt_def add_references_section_def pre)
qed

theorem failing_reference_is_skipped_witness:
  "add_reference [(''id'', ''b1'')] [] = Inl (KeyError ''text'')
   \<and> doc_text (create_odt model_three_refs) =
       [Par (P (Some ''Title'') [Text_node ''T'']),
        blank, Par (P (Some ''Heading'') [Text_node ''References'']), blank,
        Par (P (Some ''BodyText'')
               [BookmarkStart ''b0'', Text_node ''A bibitem'', BookmarkEnd ''b0'']),
        blank,
        Par (P (Some ''BodyText'')
               [BookmarkStart ''b2'', Text_node ''C bibitem'', BookmarkEnd ''b2'']),
        blank]"
proof -
  have 1: "add_reference [(''id'', ''b1'')] [] = Inl (KeyError ''text'')"
    by (simp add: add_reference_def)
  have m: "model_three_refs =
     \<lparr> title = Some ''T'', authors = [], abstract = [], body_elements = [], references = [] \<rparr>
       \<lparr> references := [[(''id'', ''b0''), (''text'', ''A'')]] @ [(''id'', ''b1'')]
                         # [[(''id'', ''b2''), (''text'', ''C'')]] \<rparr>"
    by (simp add: model_three_refs_def)
  from failing_reference_is_skipped[OF 1,
      of "[[(''id'', ''b0''), (''text'', ''A'')]]" "[[(''id'', ''b2''), (''text'', ''C'')]]" _
         "\<lparr> title = Some ''T'', authors = [], abstract = [], body_elements = [],
            references = [] \<rparr>"]
  show ?thesis
    unfolding m using 1
    by (simp add: add_reference_def add_title_def add_authors_def add_abstract_def P_text_def addText_def)
qed

section \<open>The title\<close>

text \<open>
  C7. The title of the Document Model should be the text of the first element that is a
  \<^verbatim>\<open>title\<close> with \<^verbatim>\<open>type="main"\<close> directly under a \<^verbatim>\<open>titleStmt\<close>, and \<^verbatim>\<open>"N/A"\<close> when no element
  matches. The parser takes \<^verbatim>\<open>title[0].text\<close>, which is the text before the first child
  element only: of the title \<^verbatim>\<open>Deep <hi>learning</hi> for TEI\<close>, whose text is
  \<^verbatim>\<open>"Deep learning for TEI"\<close>, it keeps \<^verbatim>\<open>"Deep "\<close>, and of an empty title element it keeps
  \<^verbatim>\<open>None\<close>, which is neither a string nor the placeholder. The abstract, the headings, the
  table cells and the references are flattened with \<^verbatim>\<open>itertext\<close>.
\<close>

theorem title_text_cut_at_first_child:
  "title_xpath (title_doc title_markup) = [title_markup]
   \<and> concat (itertext title_markup) = ''Deep learning for TEI''
   \<and> parse_tei (Inr (title_doc title_markup)) =
       Some \<lparr> title = Some ''Deep '', authors = [], abstract = [], body_elements = [],
              references = [] \<rparr>
   \<and> title_xpath (title_doc title_empty) = [title_empty]
   \<and> parse_tei (Inr (title_doc title_empty)) =
       Some \<lparr> title = None, authors = [], abstract = [], body_elements = [],
              references = [] \<rparr>"
  by (simp add: title_doc_def title_markup_def title_empty_def eval_defs)

section \<open>An empty or missing abstract\<close>

text \<open>
  C8. When the document has no abstract element, or its (first) abstract element is
  empty, the abstract field of the Document Model is the empty string, and rendering the
  model emits no \<^verbatim>\<open>"Abstract"\<close> heading: the abstract step adds nothing, so the body blocks
  follow the title and authors paragraphs directly, and neither of these two is an
  \<^verbatim>\<open>"Abstract"\<close> heading.
\<close>

theorem empty_abstract_no_heading:
  assumes "parse_tei (Inr tree) = Some parsed"
    and "abstract_xpath tree = []
       \<or> (\<exists>a rest. abstract_xpath tree = a # rest \<and> children a = []
            \<and> (etext a = None \<or> etext a = Some []))"
  shows "abstract parsed = []
       \<and> add_abstract parsed doc = doc
       \<and> doc_text (create_odt parsed) =
           add_references_section parsed
             (add_body (body_elements parsed) (add_authors parsed (add_title parsed)))
       \<and> Par (P_text (Some ''Heading'') (Some ''Abstract''))
           \<notin> set (add_authors parsed (add_title parsed))"
proof -
  have a: "abstract parsed = []"
    using assms(2) parse_tei_abstract[OF assms(1)]
    by (auto simp: itertext_empty strip_Nil)
  have h: "Par (P_text (Some ''Heading'') (Some ''Abstract''))
           \<notin> set (add_authors parsed (add_title parsed))"
    by (simp add: add_authors_def add_title_def P_text_def)
  from a h show ?thesis by (simp add: add_abstract_def create_odt_def)
qed

theorem empty_abstract_no_heading_witness:
  "parse_tei (Inr doc_empty_abstract) =
     Some \<lparr> title = Some ''N/A'', authors = [], abstract = [], body_elements = [],
            references = [] \<rparr>
   \<and> abstract_xpath doc_empty_abstract = [Elem TEI ''abstract'' [] None [] None]
   \<and> parse_tei (Inr doc_two_titles) =
     Some \<lparr> title = Some ''First'', authors = [], abstract = [], body_elements = [],
            references = [] \<rparr>
   \<and> abstract_xpath doc_two_titles = []
   \<and> doc_text (create_odt \<lparr> title = Some ''N/A'', authors = [], abstract = [],
                             body_elements = [], references = [] \<rparr>)
       = [Par (P (Some ''Title'') [Text_node ''N/A''])]
   \<and> doc_text (create_odt \<lparr> title = Some ''First'', authors = [], abstract = [],
                             body_elements = [], references = [] \<rparr>)
       = [Par (P (Some ''Title'') [Text_node ''First''])]"
proof -
  have 1: "parse_tei (Inr doc_empty_abstract) =
     Some \<lparr> title = Some ''N/A'', authors = [], abstract = [], body_elements = [],
            references = [] \<rparr>"
    by (simp add: doc_empty_abstract_def eval_defs)
  have 2: "abstract_xpath doc_empty_abstract = [Elem TEI ''abstract'' [] None [] None]"
    by (simp add: doc_empty_abstract_def eval_defs)
  have 3: "parse_tei (Inr doc_two_titles) =
     Some \<lparr> title = Some ''First'', authors = [], abstract = [], body_elements = [],
            references = [] \<rparr>"
    by (simp add: doc_two_titles_def eval_defs)
  have 4: "abstract_xpath doc_two_titles = []"
    by (simp add: doc_two_titles_def eval_defs)
  have 5: "abstract_xpath doc_empty_abstract = []
       \<or> (\<exists>a rest. abstract_xpath doc_empty_abstract = a # rest \<and> children a = []
            \<and> (etext a = None \<or> etext a = Some []))"
    by (simp add: 2)
  have 6: "abstract_xpath doc_two_titles = []
       \<or> (\<exists>a rest. abstract_xpath doc_two_titles = a # rest \<and> children a = []
            \<and> (etext a = None \<or> etext a = Some []))"
    by (simp add: 4)
  from empty_abstract_no_heading[OF 1 5] empty_abstract_no_heading[OF 3 6] 1 2 3 4
  show ?thesis
    by (simp add: add_references_section_def add_authors_def add_title_def P_text_def
        addText_def)
qed

section \<open>An author name part without text\<close>

text \<open>
  C9. Let an author entry be an \<^verbatim>\<open>author\<close> element under \<^verbatim>\<open>sourceDesc\<close>. If the first
  \<^verbatim>\<open>forename\<close> child or the first \<^verbatim>\<open>surname\<close> child of its first \<^verbatim>\<open>persName\<close> child has no text
  (\<^verbatim>\<open>.text\<close> is \<^verbatim>\<open>None\<close>), the author is not merely skipped: joining the name parts raises
  TypeError, the handler of \<^verbatim>\<open>parse_tei\<close> catches it, and the result for the whole document
  is \<^verbatim>\<open>None\<close>. A \<^verbatim>\<open>forename\<close> or \<^verbatim>\<open>surname\<close> child that is not the first of its name is never
  read.
\<close>

theorem absent_name_text_fails_parse:
  assumes "author \<in> set (author_xpath tree)"
    and "find_child (tei ''persName'') author = Some persName"
    and "(\<exists>forename. find_child (tei ''forename'') persName = Some forename
            \<and> etext forename = None)
       \<or> (\<exists>surname. find_child (tei ''surname'') persName = Some surname
            \<and> etext surname = None)"
  shows "parse_tei_try (Inr tree) = Inl TypeError \<and> parse_tei (Inr tree) = None"
proof -
  have "None \<in> set (name_parts author)"
    using assms(2,3) by (auto simp: name_parts_def split: option.splits)
  then have "join_opt '' '' (name_parts author) = Inl TypeError"
    by (rule join_opt_None)
  then have "authors_loop (author_xpath tree) [] = Inl TypeError"
    using assms(1) authors_loop_raises by blast
  then show ?thesis by (simp add: parse_tei_def parse_tei_try_def Let_def)
qed

theorem absent_name_text_fails_parse_witness:
  "Elem TEI ''author'' [] None [persName_absent_first] None
     \<in> set (author_xpath doc_absent_first)
   \<and> find_child (tei ''persName'') (Elem TEI ''author'' [] None [persName_absent_first] None)
       = Some persName_absent_first
   \<and> find_child (tei ''forename'') persName_absent_first = Some forename_absent
   \<and> etext forename_absent = None
   \<and> parse_tei_try (Inr doc_absent_first) = Inl TypeError
   \<and> parse_tei (Inr doc_absent_first) = None"
proof -
  have 1: "Elem TEI ''author'' [] None [persName_absent_first] None
     \<in> set (author_xpath doc_absent_first)"
    by (simp add: doc_absent_first_def header_doc_def persName_absent_first_def
        forename_absent_def eval_defs)
  have 2: "find_child (tei ''persName'')
       (Elem TEI ''author'' [] None [persName_absent_first] None)
       = Some persName_absent_first"
    by (simp add: find_child_def tei_def persName_absent_first_def)
  have 3: "find_child (tei ''forename'') persName_absent_first = Some forename_absent"
    by (simp add: find_child_def tei_def persName_absent_first_def forename_absent_def)
  have 4: "etext forename_absent = None"
    by (simp add: forename_absent_def)
  from 3 4 have 5:
    "(\<exists>forename. find_child (tei ''forename'') persName_absent_first = Some forename
            \<and> etext forename = None)
       \<or> (\<exists>surname. find_child (tei ''surname'') persName_absent_first = Some surname
            \<and> etext surname = None)"
    by blast
  from absent_name_text_fails_parse[OF 1 2 5] 1 2 3 4 show ?thesis by blast
qed

text \<open>
  In \<open>doc_absent_second\<close> the person name of the only author has a first forename
  \<^verbatim>\<open>John\<close>, a second forename without text and the surname \<^verbatim>\<open>Doe\<close>: the parse succeeds
  and the author is \<^verbatim>\<open>"John Doe"\<close>.
\<close>

theorem absent_name_text_counterexample:
  "forename_absent \<in> set (children persName_absent_second)
   \<and> tei ''forename'' forename_absent
   \<and> etext forename_absent = None
   \<and> author_xpath doc_absent_second =
       [Elem TEI ''author'' [] None [persName_absent_second] None]
   \<and> parse_tei (Inr doc_absent_second) =
       Some \<lparr> title = Some ''N/A'', authors = [''John Doe''], abstract = [],
              body_elements = [], references = [] \<rparr>"
  by (simp add: doc_absent_second_def header_doc_def persName_absent_second_def
      forename_absent_def eval_defs)

section \<open>Citation targets\<close>

text \<open>
  C10. In every Document Model the parser returns, no CitationRef span of a paragraph
  has a target that begins with the character \<^verbatim>\<open>#\<close>: \<^verbatim>\<open>lstrip('#')\<close> removes every leading
  \<^verbatim>\<open>#\<close> of the target attribute, so that the attribute \<^verbatim>\<open>"##b0"\<close> gives the target \<^verbatim>\<open>"b0"\<close>.
\<close>

theorem citation_target_no_leading_hash:
  assumes "parse_tei tei_file = Some parsed"
    and "Paragraph content \<in> set (body_elements parsed)"
    and "Ref_span ref_text target \<in> set content"
  shows "target \<noteq> CHR ''#'' # rest
    \<and> get_paragraph_content
         (Elem nsp ''p'' [] None
            [Elem nsr ''ref'' [(''type'', ''bibr''), (''target'', ''##b0'')] None [] None] None)
       = [Ref_span [] ''b0'']"
proof
  show "target \<noteq> CHR ''#'' # rest"
    using parse_tei_blocks_ok[OF assms(1)] assms(2,3)
    unfolding blocks_ok_def targets_ok_def by blast
  show "get_paragraph_content
         (Elem nsp ''p'' [] None
            [Elem nsr ''ref'' [(''type'', ''bibr''), (''target'', ''##b0'')] None [] None] None)
       = [Ref_span [] ''b0'']"
    by (simp add: get_paragraph_content_def append_text_def get_def get_default_def lstrip_def)
qed

theorem citation_target_no_leading_hash_witness:
  "parse_tei (Inr doc_hash) =
     Some \<lparr> title = Some ''N/A'', authors = [], abstract = [],
            body_elements = [Paragraph [Ref_span ''Smith 2020'' ''b0'']], references = [] \<rparr>
   \<and> Paragraph [Ref_span ''Smith 2020'' ''b0'']
       \<in> set (body_elements
           \<lparr> title = Some ''N/A'', authors = [], abstract = [],
             body_elements = [Paragraph [Ref_span ''Smith 2020'' ''b0'']], references = [] \<rparr>)
   \<and> Ref_span ''Smith 2020'' ''b0'' \<in> set [Ref_span ''Smith 2020'' ''b0'']
   \<and> ''b0'' \<noteq> CHR ''#'' # []"
proof -
  have p: "parse_tei (Inr doc_hash) =
     Some \<lparr> title = Some ''N/A'', authors = [], abstract = [],
            body_elements = [Paragraph [Ref_span ''Smith 2020'' ''b0'']], references = [] \<rparr>"
    by (simp add: doc_hash_def eval_defs get_paragraph_content_def append_text_def lstrip_def)
  have b: "Paragraph [Ref_span ''Smith 2020'' ''b0'']
       \<in> set (body_elements
           \<lparr> title = Some ''N/A'', authors = [], abstract = [],
             body_elements = [Paragraph [Ref_span ''Smith 2020'' ''b0'']], references = [] \<rparr>)"
    by simp
  have r: "Ref_span ''Smith 2020'' ''b0'' \<in> set [Ref_span ''Smith 2020'' ''b0'']"
    by simp
  from citation_target_no_leading_hash[OF p b r, of "[]"] p b r show ?thesis by blast
qed

end
